theory Spec2Isabelle
  imports Complex_Main
begin

section \<open>Data model\<close>

text \<open>
  The cart endpoint (\<^verbatim>\<open>src/app/api/cart/route.ts\<close>) keeps one module-level object
  \<^verbatim>\<open>carts\<close> from user identifiers to arrays of line items. A line item is the object
  \<^verbatim>\<open>{ productId: string; quantity: number; price: number }\<close>.

  JavaScript strings are modelled as \<^typ>\<open>string\<close>; only their equality and emptiness
  matter to the handlers.
\<close>

subsection \<open>Numbers\<close>

text \<open>
  A JavaScript \<^verbatim>\<open>number\<close> is an IEEE 754 double: a finite value, one of the two
  infinities, or \<^verbatim>\<open>NaN\<close>. A finite double is modelled by the real number it stands for
  (the two zeros are one value; the handlers never tell them apart).
\<close>

datatype number = Finite real | PosInfinity | NegInfinity | NaN

text \<open>Rounding a real to the nearest integer, a tie to the even neighbour.\<close>

definition round_half_even :: "real \<Rightarrow> int" where
  "round_half_even r =
     (let f = \<lfloor>r\<rfloor>; d = r - of_int f
      in if d < 1 / 2 then f else if 1 / 2 < d then f + 1 else if even f then f else f + 1)"

text \<open>
  The binary exponent of a non-zero real in double precision: \<open>\<lfloor>log\<^sub>2 \<bar>x\<bar>\<rfloor>\<close>, but no less
  than the exponent \<open>-1022\<close> of the subnormal numbers.
\<close>

definition exponent :: "real \<Rightarrow> int" where
  "exponent x = max \<lfloor>log 2 \<bar>x\<bar>\<rfloor> (- 1022)"

definition overflow_threshold :: real where
  "overflow_threshold = 2 ^ 1024"

text \<open>
  The double that an arithmetic operation returns for the exact result \<open>x\<close> (rounding to
  nearest, ties to even): \<open>x\<close> is rounded to a multiple of the spacing
  \<open>2\<^bsup>exponent x - 52\<^esup>\<close> of the doubles around it (53 significant bits), and a rounded
  magnitude of \<open>2\<^sup>1\<^sup>0\<^sup>2\<^sup>4\<close> or more overflows to an infinity.
\<close>

definition to_double :: "real \<Rightarrow> number" where
  "to_double x =
     (if x = 0 then Finite 0
      else let ulp = 2 powr (of_int (exponent x) - 52);
               y = of_int (round_half_even (x / ulp)) * ulp
           in if overflow_threshold \<le> y then PosInfinity
              else if y \<le> - overflow_threshold then NegInfinity
              else Finite y)"

text \<open>The operator \<^verbatim>\<open>+\<close> on numbers.\<close>

fun fadd :: "number \<Rightarrow> number \<Rightarrow> number" where
  "fadd (Finite x) (Finite y) = to_double (x + y)"
| "fadd NaN _ = NaN"
| "fadd _ NaN = NaN"
| "fadd PosInfinity NegInfinity = NaN"
| "fadd NegInfinity PosInfinity = NaN"
| "fadd PosInfinity _ = PosInfinity"
| "fadd _ PosInfinity = PosInfinity"
| "fadd NegInfinity _ = NegInfinity"
| "fadd _ NegInfinity = NegInfinity"

text \<open>The operator \<^verbatim>\<open>*\<close> on numbers; \<open>neg\<close> is the unary minus.\<close>

fun neg :: "number \<Rightarrow> number" where
  "neg (Finite x) = Finite (- x)"
| "neg PosInfinity = NegInfinity"
| "neg NegInfinity = PosInfinity"
| "neg NaN = NaN"

fun fmul :: "number \<Rightarrow> number \<Rightarrow> number" where
  "fmul (Finite x) (Finite y) = to_double (x * y)"
| "fmul NaN _ = NaN"
| "fmul _ NaN = NaN"
| "fmul PosInfinity (Finite y) =
     (if y = 0 then NaN else if 0 < y then PosInfinity else NegInfinity)"
| "fmul (Finite x) PosInfinity =
     (if x = 0 then NaN else if 0 < x then PosInfinity else NegInfinity)"
| "fmul NegInfinity (Finite y) =
     (if y = 0 then NaN else if 0 < y then NegInfinity else PosInfinity)"
| "fmul (Finite x) NegInfinity =
     (if x = 0 then NaN else if 0 < x then NegInfinity else PosInfinity)"
| "fmul PosInfinity b = b"
| "fmul NegInfinity b = neg b"

text \<open>\<^verbatim>\<open>Number.MAX_SAFE_INTEGER\<close>, that is \<open>2\<^sup>5\<^sup>3 - 1\<close>.\<close>

definition MAX_SAFE_INTEGER :: real where
  "MAX_SAFE_INTEGER = 9007199254740991"

subsection \<open>Line items, requests and responses\<close>

record item =
  productId :: string
  quantity :: number
  price :: number

type_synonym cart = "item list"

text \<open>The own properties of the object \<^verbatim>\<open>carts\<close>.\<close>

type_synonym carts = "string \<rightharpoonup> cart"

text \<open>
  A request body after \<^verbatim>\<open>request.json()\<close>: a JSON value. An object is the list of its
  members (keys pairwise different after parsing). A number is the double that was parsed,
  given by its value: the literal \<^verbatim>\<open>0.1\<close> is the double nearest to one tenth, not one tenth.
  (A literal too large for a double parses to an infinity, which \<^verbatim>\<open>z.number()\<close> rejects;
  bodies with such members are not represented.)
\<close>

datatype json =
    JNull
  | JBool bool
  | JNum real
  | JStr string
  | JArr "json list"
  | JObj "(string \<times> json) list"

text \<open>
  What a handler reads from a request: the query parameters \<^verbatim>\<open>userId\<close> and \<^verbatim>\<open>itemId\<close>
  (\<^verbatim>\<open>searchParams.get\<close> gives \<^verbatim>\<open>null\<close>, here \<open>None\<close>, for a missing parameter) and the
  body, \<open>None\<close> when \<^verbatim>\<open>request.json()\<close> throws because the body is not JSON.
\<close>

record request =
  q_userId :: "string option"
  q_itemId :: "string option"
  body :: "json option"

text \<open>
  The responses of the four handlers, as the values handed to \<^verbatim>\<open>NextResponse.json\<close>. The
  three status-200 payloads of the mutating handlers echo the validated input; status 400
  carries the issue list of the schema library, which the model leaves out; 404 and 500
  carry the \<^verbatim>\<open>error\<close> string. Serialising the response writes a number that is not finite
  as \<^verbatim>\<open>null\<close>.
\<close>

datatype response =
    CartView (items: cart) (totalItems: nat) (totalPrice: number)
  | ItemAdded item
  | ItemUpdated string real
  | ItemRemoved string
  | InvalidInput
  | NotFound string
  | ServerError string

section \<open>Validation schemas\<close>

text \<open>
  \<^verbatim>\<open>z.object({...}).parse(body)\<close> accepts an object (not \<^verbatim>\<open>null\<close>, not an array) and
  checks each member named in the shape; a missing member is \<^verbatim>\<open>undefined\<close> and fails
  its check. Any failure throws \<^verbatim>\<open>ZodError\<close>, here \<open>None\<close>.
\<close>

fun jfield :: "json \<Rightarrow> string \<Rightarrow> json option" where
  "jfield (JObj kvs) k = map_of kvs k"
| "jfield _ k = None"

fun is_object :: "json \<Rightarrow> bool" where
  "is_object (JObj kvs) = True"
| "is_object _ = False"

text \<open>\<^verbatim>\<open>z.string().min(1)\<close>\<close>

fun string_min1 :: "json option \<Rightarrow> string option" where
  "string_min1 (Some (JStr s)) = (if 1 \<le> length s then Some s else None)"
| "string_min1 _ = None"

text \<open>\<^verbatim>\<open>Number.isInteger\<close>\<close>

definition isInteger :: "real \<Rightarrow> bool" where
  "isInteger x = (x = of_int \<lfloor>x\<rfloor>)"

text \<open>
  \<^verbatim>\<open>z.number().int().min(m)\<close>. The handlers read \<^verbatim>\<open>error.issues\<close> where earlier versions
  of the library had \<^verbatim>\<open>error.errors\<close> (the comment in \<^verbatim>\<open>POST\<close> says so): the library is
  zod 4, whose \<^verbatim>\<open>int()\<close> accepts the safe integers only, those of magnitude at most
  \<^verbatim>\<open>Number.MAX_SAFE_INTEGER\<close>.
\<close>

fun number_int_min :: "real \<Rightarrow> json option \<Rightarrow> real option" where
  "number_int_min m (Some (JNum x)) =
     (if isInteger x \<and> - MAX_SAFE_INTEGER \<le> x \<and> x \<le> MAX_SAFE_INTEGER \<and> m \<le> x
      then Some x else None)"
| "number_int_min m _ = None"

text \<open>\<^verbatim>\<open>z.number().min(m)\<close>\<close>

fun number_min :: "real \<Rightarrow> json option \<Rightarrow> real option" where
  "number_min m (Some (JNum x)) = (if m \<le> x then Some x else None)"
| "number_min m _ = None"

definition CartItemSchema :: "json \<Rightarrow> item option" where
  "CartItemSchema b =
     (if \<not> is_object b then None
      else case string_min1 (jfield b ''productId'') of
        None \<Rightarrow> None
      | Some p \<Rightarrow>
          (case number_int_min 1 (jfield b ''quantity'') of
             None \<Rightarrow> None
           | Some q \<Rightarrow>
               (case number_min 0 (jfield b ''price'') of
                  None \<Rightarrow> None
                | Some pr \<Rightarrow>
                    Some \<lparr>productId = p, quantity = Finite q, price = Finite pr\<rparr>)))"

definition UpdateCartItemSchema :: "json \<Rightarrow> (string \<times> real) option" where
  "UpdateCartItemSchema b =
     (if \<not> is_object b then None
      else case string_min1 (jfield b ''productId'') of
        None \<Rightarrow> None
      | Some p \<Rightarrow>
          (case number_int_min 0 (jfield b ''quantity'') of
             None \<Rightarrow> None
           | Some q \<Rightarrow> Some (p, q)))"

text \<open>
  \<^verbatim>\<open>DeleteCartItemSchema.parse({ itemId: searchParams.get('itemId') })\<close>: the parsed
  object is built by the handler, its only member is the query parameter (\<^verbatim>\<open>null\<close> when
  missing).
\<close>

definition DeleteCartItemSchema :: "string option \<Rightarrow> string option" where
  "DeleteCartItemSchema i =
     (case i of
        None \<Rightarrow> None
      | Some s \<Rightarrow> if 1 \<le> length s then Some s else None)"

section \<open>The store\<close>

text \<open>
  \<^verbatim>\<open>const carts = {}\<close> is an ordinary object, so the read \<^verbatim>\<open>carts[userId]\<close> finds an own
  property or else a property inherited from \<^verbatim>\<open>Object.prototype\<close>. The inherited values
  are functions (or, for \<^verbatim>\<open>__proto__\<close>, the prototype object): truthy, and without the
  array methods \<^verbatim>\<open>find\<close>, \<^verbatim>\<open>findIndex\<close> and \<^verbatim>\<open>reduce\<close>.
\<close>

definition object_prototype_keys :: "string list" where
  "object_prototype_keys =
     [''constructor'', ''__defineGetter__'', ''__defineSetter__'', ''hasOwnProperty'',
      ''__lookupGetter__'', ''__lookupSetter__'', ''isPrototypeOf'',
      ''propertyIsEnumerable'', ''toString'', ''valueOf'', ''__proto__'',
      ''toLocaleString'']"

datatype slot = Undefined | Array cart | Inherited

definition carts_get :: "carts \<Rightarrow> string \<Rightarrow> slot" where
  "carts_get s u =
     (case s u of
        Some c \<Rightarrow> Array c
      | None \<Rightarrow> if u \<in> set object_prototype_keys then Inherited else Undefined)"

text \<open>\<^verbatim>\<open>searchParams.get('userId') || 'default-user'\<close>: \<^verbatim>\<open>null\<close> and the empty string are falsy.\<close>

definition userId_of :: "request \<Rightarrow> string" where
  "userId_of r =
     (case q_userId r of
        None \<Rightarrow> ''default-user''
      | Some u \<Rightarrow> if u = [] then ''default-user'' else u)"

text \<open>\<^verbatim>\<open>Array.prototype.findIndex\<close>; \<open>None\<close> stands for the result \<^verbatim>\<open>-1\<close>.\<close>

fun findIndex :: "('a \<Rightarrow> bool) \<Rightarrow> 'a list \<Rightarrow> nat option" where
  "findIndex P [] = None"
| "findIndex P (x # xs) = (if P x then Some 0 else map_option Suc (findIndex P xs))"

text \<open>\<^verbatim>\<open>xs.splice(i, 1)\<close>, for \<open>i\<close> an index of \<open>xs\<close>.\<close>

definition splice1 :: "nat \<Rightarrow> 'a list \<Rightarrow> 'a list" where
  "splice1 i xs = take i xs @ drop (Suc i) xs"

section \<open>Handlers\<close>

text \<open>
  Each handler takes the request and the store and returns the response and the store
  after it. An exception other than \<^verbatim>\<open>ZodError\<close> is caught by the handler and answered
  with status 500.
\<close>

definition GET :: "request \<Rightarrow> carts \<Rightarrow> response \<times> carts" where
  "GET r s =
     (let userId = userId_of r in
      case carts_get s userId of
        Undefined \<Rightarrow> (CartView [] 0 (Finite 0), s)
      | Array cartItems \<Rightarrow>
          (CartView cartItems (length cartItems)
             (foldl (\<lambda>sum it. fadd sum (fmul (price it) (quantity it))) (Finite 0) cartItems),
           s)
      | Inherited \<Rightarrow> (ServerError ''Failed to fetch cart items'', s))"

text \<open>
  \<^verbatim>\<open>POST\<close>: \<^verbatim>\<open>find\<close> returns the first matching element of the array itself, so
  \<^verbatim>\<open>existingItem.quantity += ...\<close> updates the array at the index of that element.
\<close>

definition POST :: "request \<Rightarrow> carts \<Rightarrow> response \<times> carts" where
  "POST r s =
     (let userId = userId_of r in
      case body r of
        None \<Rightarrow> (ServerError ''Failed to add item to cart'', s)
      | Some b \<Rightarrow>
          (case CartItemSchema b of
             None \<Rightarrow> (InvalidInput, s)
           | Some validatedData \<Rightarrow>
               (let s1 = (case carts_get s userId of
                            Undefined \<Rightarrow> s(userId \<mapsto> [])
                          | _ \<Rightarrow> s)
                in case carts_get s1 userId of
                     Array c \<Rightarrow>
                       (case findIndex (\<lambda>it. productId it = productId validatedData) c of
                          Some i \<Rightarrow>
                            (ItemAdded validatedData,
                             s1(userId \<mapsto> c[i := (c ! i)
                                  \<lparr>quantity :=
                                     fadd (quantity (c ! i)) (quantity validatedData)\<rparr>]))
                        | None \<Rightarrow>
                            (ItemAdded validatedData,
                             s1(userId \<mapsto> c @
                                  [\<lparr>productId = productId validatedData,
                                    quantity = quantity validatedData,
                                    price = price validatedData\<rparr>])))
                   | _ \<Rightarrow> (ServerError ''Failed to add item to cart'', s1))))"

definition PUT :: "request \<Rightarrow> carts \<Rightarrow> response \<times> carts" where
  "PUT r s =
     (let userId = userId_of r in
      case body r of
        None \<Rightarrow> (ServerError ''Failed to update cart item'', s)
      | Some b \<Rightarrow>
          (case UpdateCartItemSchema b of
             None \<Rightarrow> (InvalidInput, s)
           | Some (p, q) \<Rightarrow>
               (case carts_get s userId of
                  Undefined \<Rightarrow> (NotFound ''Cart not found'', s)
                | Inherited \<Rightarrow> (ServerError ''Failed to update cart item'', s)
                | Array c \<Rightarrow>
                    (case findIndex (\<lambda>it. productId it = p) c of
                       None \<Rightarrow> (NotFound ''Item not found in cart'', s)
                     | Some itemIndex \<Rightarrow>
                         (if q = 0
                          then (ItemUpdated p q, s(userId \<mapsto> splice1 itemIndex c))
                          else (ItemUpdated p q,
                                s(userId \<mapsto>
                                    c[itemIndex := (c ! itemIndex)\<lparr>quantity := Finite q\<rparr>])))))))"

definition DELETE :: "request \<Rightarrow> carts \<Rightarrow> response \<times> carts" where
  "DELETE r s =
     (let userId = userId_of r in
      case DeleteCartItemSchema (q_itemId r) of
        None \<Rightarrow> (InvalidInput, s)
      | Some itemId \<Rightarrow>
          (case carts_get s userId of
             Undefined \<Rightarrow> (NotFound ''Cart not found'', s)
           | Inherited \<Rightarrow> (ServerError ''Failed to remove item from cart'', s)
           | Array c \<Rightarrow>
               (case findIndex (\<lambda>it. productId it = itemId) c of
                  None \<Rightarrow> (NotFound ''Item not found in cart'', s)
                | Some itemIndex \<Rightarrow> (ItemRemoved itemId, s(userId \<mapsto> splice1 itemIndex c)))))"

text \<open>The stores the running service can be in: it starts empty and changes by requests only.\<close>

inductive reachable :: "carts \<Rightarrow> bool" where
  start: "reachable Map.empty"
| get: "reachable s \<Longrightarrow> reachable (snd (GET r s))"
| post: "reachable s \<Longrightarrow> reachable (snd (POST r s))"
| put: "reachable s \<Longrightarrow> reachable (snd (PUT r s))"
| delete: "reachable s \<Longrightarrow> reachable (snd (DELETE r s))"

text \<open>The invariant of the data model: no two line items of a cart share a \<^verbatim>\<open>productId\<close>.\<close>

definition cart_ok :: "cart \<Rightarrow> bool" where
  "cart_ok c = distinct (map productId c)"

definition carts_inv :: "carts \<Rightarrow> bool" where
  "carts_inv s = (\<forall>u c. s u = Some c \<longrightarrow> cart_ok c)"


section \<open>Requests of the four operations\<close>

text \<open>
  The requests a client sends for the operations \<open>list\<close>, \<open>add\<close>, \<open>update\<close> and
  \<open>remove\<close> of the cart: the user identifier is the optional query parameter, the
  other arguments are the members of the JSON body (\<open>add\<close>, \<open>update\<close>) or the query
  parameter \<^verbatim>\<open>itemId\<close> (\<open>remove\<close>).
\<close>

definition list_request :: "string option \<Rightarrow> request" where
  "list_request u = \<lparr>q_userId = u, q_itemId = None, body = None\<rparr>"

definition add_request :: "string option \<Rightarrow> string \<Rightarrow> real \<Rightarrow> real \<Rightarrow> request" where
  "add_request u p q pr =
     \<lparr>q_userId = u, q_itemId = None,
      body = Some (JObj [(''productId'', JStr p), (''quantity'', JNum q), (''price'', JNum pr)])\<rparr>"

definition update_request :: "string option \<Rightarrow> string \<Rightarrow> real \<Rightarrow> request" where
  "update_request u p q =
     \<lparr>q_userId = u, q_itemId = None,
      body = Some (JObj [(''productId'', JStr p), (''quantity'', JNum q)])\<rparr>"

definition remove_request :: "string option \<Rightarrow> string \<Rightarrow> request" where
  "remove_request u i = \<lparr>q_userId = u, q_itemId = Some i, body = None\<rparr>"

section \<open>Book catalogue\<close>

text \<open>
  \<^verbatim>\<open>src/app/services/bookService.ts\<close>. The type \<^verbatim>\<open>Book\<close> and the data set \<^verbatim>\<open>books\<close> are
  imported from modules outside the sources at hand: a book is modelled by its \<^verbatim>\<open>genre\<close>,
  a string or an array of strings, and the remaining members \<open>rest\<close>, which the spread
  \<^verbatim>\<open>...book\<close> copies; the data set is a parameter.
\<close>

datatype genre_value = GenreString string | GenreArray "string list"

record 'a book =
  rest :: 'a
  genre :: genre_value

text \<open>\<^verbatim>\<open>Array.prototype.join(separator)\<close> on an array of strings.\<close>

fun join :: "string \<Rightarrow> string list \<Rightarrow> string" where
  "join sep [] = []"
| "join sep [x] = x"
| "join sep (x # y # ys) = x @ sep @ join sep (y # ys)"

definition getAllBooks :: "'a book list \<Rightarrow> 'a book list" where
  "getAllBooks books =
     map (\<lambda>book. book\<lparr>genre :=
            (case genre book of
               GenreArray gs \<Rightarrow> GenreString (join '', '' gs)
             | GenreString g \<Rightarrow> GenreString g)\<rparr>) books"

section \<open>Auxiliary facts\<close>

subsection \<open>Rounding\<close>

lemma round_half_even_of_int: "round_half_even (of_int k) = k"
  by (simp add: round_half_even_def)

lemma exponent_eq:
  assumes "2 powr of_int e \<le> \<bar>x\<bar>" and "\<bar>x\<bar> < 2 powr of_int (e + 1)" and "- 1022 \<le> e"
  shows "exponent x = e"
proof -
  have "0 < \<bar>x\<bar>" using assms(1) by (smt (verit) powr_gt_zero)
  then have "\<lfloor>log 2 \<bar>x\<bar>\<rfloor> = e"
    using assms(1,2) by (simp add: floor_log_eq_powr_iff)
  with assms(3) show ?thesis by (simp add: exponent_def)
qed

lemma to_double_exact:
  assumes "x \<noteq> 0" and "x / 2 powr (of_int (exponent x) - 52) \<in> \<int>"
    and "\<bar>x\<bar> < overflow_threshold"
  shows "to_double x = Finite x"
proof -
  let ?u = "2 powr (of_int (exponent x) - 52)"
  from assms(2) obtain k where k: "x / ?u = of_int k" by (auto elim: Ints_cases)
  have u: "?u \<noteq> 0" by simp
  have "of_int (round_half_even (x / ?u)) * ?u = x"
    unfolding k round_half_even_of_int using k u by (metis nonzero_divide_eq_eq)
  with assms(1,3) show ?thesis
    by (auto simp: to_double_def Let_def)
qed

lemma safe_below_overflow: "9007199254740992 < overflow_threshold"
proof -
  have "(2::real) ^ 53 < 2 ^ 1024" by (rule power_strict_increasing) simp_all
  moreover have "(2::real) ^ 53 = 9007199254740992" by simp
  ultimately show ?thesis unfolding overflow_threshold_def by (simp only:)
qed

lemma two_powr_53: "(2::real) powr 53 = 9007199254740992"
  using powr_realpow [of 2 53] by simp

lemma to_double_safe_integer:
  assumes "x \<in> \<int>" and "\<bar>x\<bar> \<le> 9007199254740992"
  shows "to_double x = Finite x"
proof (cases "x = 0")
  case True
  then show ?thesis by (simp add: to_double_def)
next
  case False
  from assms(1) obtain n where n: "x = of_int n" by (auto elim: Ints_cases)
  with False have "1 \<le> \<bar>n\<bar>" by auto
  then have one: "1 \<le> \<bar>x\<bar>" using n by simp
  let ?e = "\<lfloor>log 2 \<bar>x\<bar>\<rfloor>"
  have pos: "0 < \<bar>x\<bar>" using one by simp
  have bnd: "2 powr of_int ?e \<le> \<bar>x\<bar>" "\<bar>x\<bar> < 2 powr of_int (?e + 1)"
    using floor_log_eq_powr_iff [of "\<bar>x\<bar>" 2 ?e] pos by simp_all
  have e0: "0 \<le> ?e"
    using one by (simp add: zero_le_log_cancel_iff)
  have "2 powr of_int ?e \<le> (2::real) powr 53"
    using bnd(1) assms(2) unfolding two_powr_53 by linarith
  then have "real_of_int ?e \<le> 53"
    by (subst (asm) powr_le_cancel_iff) simp_all
  then have e53: "?e \<le> 53" by linarith
  have ex: "exponent x = ?e" using e0 by (simp add: exponent_def)
  have "x / 2 powr (of_int ?e - 52) \<in> \<int>"
  proof (cases "?e = 53")
    case True
    with bnd(1) have "2 powr 53 \<le> \<bar>x\<bar>" by simp
    with assms(2) have "\<bar>x\<bar> = 9007199254740992" unfolding two_powr_53 by linarith
    then have "x = 9007199254740992 \<or> x = - 9007199254740992" by linarith
    moreover have "(2::real) powr (of_int ?e - 52) = 2" using True by simp
    ultimately show ?thesis by auto
  next
    case False
    with e53 have le: "?e \<le> 52" by linarith
    define k where "k = nat (52 - ?e)"
    have "2 powr (of_int ?e - 52) = 2 powr (- real k)"
      using le by (simp add: k_def)
    also have "\<dots> = 1 / 2 ^ k"
      by (simp add: powr_minus powr_realpow inverse_eq_divide)
    finally have "x / 2 powr (of_int ?e - 52) = of_int (n * 2 ^ k)"
      using n by simp
    then show ?thesis by (metis Ints_of_int)
  qed
  moreover have "\<bar>x\<bar> < overflow_threshold"
    using assms(2) safe_below_overflow by linarith
  ultimately show ?thesis using False ex by (simp add: to_double_exact)
qed


text \<open>
  Two known results of double arithmetic, computed with \<^const>\<open>to_double\<close>: the product of
  the double nearest to 0.1 and 3 is the double printed as \<^verbatim>\<open>0.30000000000000004\<close>, and
  \<open>2\<^sup>1\<^sup>0\<^sup>2\<^sup>3 * 2\<close> overflows.
\<close>

lemma two_powr_neg: "(2::real) powr (- real n) = 1 / 2 ^ n"
  by (simp add: powr_minus powr_realpow inverse_eq_divide)

lemma fmul_tenth_by_three:
  "fmul (Finite (3602879701896397 / 2 ^ 55)) (Finite 3) = Finite (1351079888211149 / 2 ^ 52)"
proof -
  let ?x = "10808639105689191 / 2 ^ 55 :: real"
  have lo: "(2::real) powr (- 2) = 1 / 4"
    using two_powr_neg [of 2] by simp
  have hi: "(2::real) powr (- 1) = 1 / 2"
    using two_powr_neg [of 1] by simp
  have e: "exponent ?x = - 2"
    by (rule exponent_eq) (simp_all add: lo hi)
  have u: "(2::real) powr (of_int (- 2) - 52) = 1 / 2 ^ 54"
    using two_powr_neg [of 54] by (simp del: power_numeral)
  have r: "round_half_even (?x / (1 / 2 ^ 54)) = 5404319552844596"
    by (simp add: round_half_even_def Let_def)
  have t: "to_double ?x = Finite (1351079888211149 / 2 ^ 52)"
    unfolding to_double_def e u Let_def r
    using safe_below_overflow by simp
  then show ?thesis by simp
qed

lemma fmul_overflow: "fmul (Finite (2 ^ 1023)) (Finite 2) = PosInfinity"
proof -
  have x: "(2::real) ^ 1023 * 2 = 2 ^ 1024"
    by simp
  have lo: "(2::real) powr of_int 1024 = 2 ^ 1024"
    using powr_realpow [of 2 1024] by simp
  have hi: "(2::real) powr of_int (1024 + 1) = 2 ^ 1025"
    using powr_realpow [of 2 1025] by simp
  have e: "exponent (2 ^ 1024) = 1024"
    by (rule exponent_eq) (simp_all only: lo hi, simp_all)
  have u: "(2::real) powr (of_int 1024 - 52) = 2 ^ 972"
    using powr_realpow [of 2 972] by simp
  have d: "(2::real) ^ 1024 / 2 ^ 972 = of_int (2 ^ 52)"
    by simp
  have "to_double (2 ^ 1024) = PosInfinity"
    unfolding to_double_def e u Let_def d round_half_even_of_int
    by (simp add: overflow_threshold_def)
  then show ?thesis by (simp only: fmul.simps x)
qed

subsection \<open>Arrays, schemas and handlers\<close>

lemma findIndex_None_iff: "findIndex P xs = None \<longleftrightarrow> (\<forall>x\<in>set xs. \<not> P x)"
  by (induction xs) auto

lemma findIndex_Some:
  "findIndex P xs = Some i \<Longrightarrow> i < length xs \<and> P (xs ! i) \<and> (\<forall>j<i. \<not> P (xs ! j))"
proof (induction xs arbitrary: i)
  case Nil
  then show ?case by simp
next
  case (Cons x xs)
  show ?case
  proof (cases "P x")
    case True
    with Cons.prems show ?thesis by simp
  next
    case False
    with Cons.prems obtain k where k: "findIndex P xs = Some k" "i = Suc k"
      by auto
    from Cons.IH [OF k(1)] False k(2) show ?thesis
      by (auto simp: nth_Cons split: nat.splits)
  qed
qed

lemma isInteger_iff: "isInteger x \<longleftrightarrow> x \<in> \<int>"
proof
  assume "isInteger x"
  then have "x = of_int \<lfloor>x\<rfloor>" by (simp add: isInteger_def)
  then show "x \<in> \<int>" by (metis Ints_of_int)
next
  assume "x \<in> \<int>"
  then show "isInteger x" by (auto simp: isInteger_def elim: Ints_cases)
qed

lemma distinct_splice1: "distinct xs \<Longrightarrow> distinct (splice1 i xs)"
proof (induction xs arbitrary: i)
  case Nil
  then show ?case by (simp add: splice1_def)
next
  case (Cons x xs)
  show ?case
  proof (cases i)
    case 0
    with Cons.prems show ?thesis by (simp add: splice1_def)
  next
    case (Suc k)
    have "set (splice1 k xs) \<subseteq> set xs"
      unfolding splice1_def using set_take_subset [of k xs] set_drop_subset [of "Suc k" xs]
      by auto
    with Cons.prems Cons.IH [of k] Suc show ?thesis
      by (auto simp: splice1_def)
  qed
qed

lemma map_splice1: "map f (splice1 i xs) = splice1 i (map f xs)"
  by (simp add: splice1_def take_map drop_map)

lemma cart_ok_splice1: "cart_ok c \<Longrightarrow> cart_ok (splice1 i c)"
  by (simp add: cart_ok_def map_splice1 distinct_splice1)

lemma map_productId_set_quantity:
  "map productId (c[i := (c ! i)\<lparr>quantity := q\<rparr>]) = map productId c"
proof (induction c arbitrary: i)
  case Nil
  then show ?case by simp
next
  case (Cons x xs)
  then show ?case by (cases i) simp_all
qed

lemma cart_ok_set_quantity: "cart_ok c \<Longrightarrow> cart_ok (c[i := (c ! i)\<lparr>quantity := q\<rparr>])"
  by (simp add: cart_ok_def map_productId_set_quantity)

lemma cart_ok_append:
  "cart_ok c \<Longrightarrow> findIndex (\<lambda>it. productId it = p) c = None \<Longrightarrow>
   cart_ok (c @ [\<lparr>productId = p, quantity = q, price = pr\<rparr>])"
  by (auto simp: cart_ok_def findIndex_None_iff)

lemma cart_ok_small: "cart_ok []" "cart_ok [x]"
  by (simp_all add: cart_ok_def)

lemma carts_inv_upd: "carts_inv s \<Longrightarrow> cart_ok c \<Longrightarrow> carts_inv (s(u \<mapsto> c))"
  by (simp add: carts_inv_def)

lemma carts_inv_POST: "carts_inv s \<Longrightarrow> carts_inv (snd (POST r s))"
  unfolding POST_def carts_get_def Let_def
  by (auto split: option.splits slot.splits if_splits
      intro!: carts_inv_upd cart_ok_set_quantity cart_ok_append
      simp: carts_inv_def [of s] cart_ok_small)

lemma carts_inv_PUT: "carts_inv s \<Longrightarrow> carts_inv (snd (PUT r s))"
  unfolding PUT_def carts_get_def Let_def
  by (auto split: option.splits slot.splits if_splits prod.splits
      intro!: carts_inv_upd cart_ok_set_quantity cart_ok_splice1
      simp: carts_inv_def [of s])

lemma carts_inv_DELETE: "carts_inv s \<Longrightarrow> carts_inv (snd (DELETE r s))"
  unfolding DELETE_def carts_get_def Let_def
  by (auto split: option.splits slot.splits if_splits
      intro!: carts_inv_upd cart_ok_splice1
      simp: carts_inv_def [of s])

lemma snd_GET: "snd (GET r s) = s"
  by (simp add: GET_def Let_def split: slot.splits)

lemma reachable_carts_inv: "reachable s \<Longrightarrow> carts_inv s"
proof (induction rule: reachable.induct)
  case start
  show ?case by (simp add: carts_inv_def)
next
  case (get s r)
  then show ?case by (simp add: snd_GET)
next
  case (post s r)
  from post.IH show ?case by (rule carts_inv_POST)
next
  case (put s r)
  from put.IH show ?case by (rule carts_inv_PUT)
next
  case (delete s r)
  from delete.IH show ?case by (rule carts_inv_DELETE)
qed

lemma length_min1: "Suc 0 \<le> length s \<longleftrightarrow> s \<noteq> []"
  by (cases s) simp_all

lemma string_min1_Some_iff: "string_min1 x = Some p \<longleftrightarrow> x = Some (JStr p) \<and> p \<noteq> []"
  by (cases x rule: string_min1.cases) (auto simp: length_min1)

lemma number_int_min_Some_iff:
  "number_int_min m x = Some q \<longleftrightarrow>
     x = Some (JNum q) \<and> q \<in> \<int> \<and> \<bar>q\<bar> \<le> MAX_SAFE_INTEGER \<and> m \<le> q"
  by (cases "(m, x)" rule: number_int_min.cases) (auto simp: isInteger_iff abs_le_iff)

lemma number_min_Some_iff: "number_min m x = Some v \<longleftrightarrow> x = Some (JNum v) \<and> m \<le> v"
  by (cases "(m, x)" rule: number_min.cases) auto

lemma jfield_Some_object: "jfield b k = Some v \<Longrightarrow> is_object b"
  by (cases b) simp_all

lemma CartItemSchema_Some_iff:
  "CartItemSchema b = Some v \<longleftrightarrow>
     (\<exists>q pr. quantity v = Finite q \<and> price v = Finite pr \<and>
        jfield b ''productId'' = Some (JStr (productId v)) \<and> productId v \<noteq> [] \<and>
        jfield b ''quantity'' = Some (JNum q) \<and> q \<in> \<int> \<and> 1 \<le> q \<and>
        q \<le> MAX_SAFE_INTEGER \<and>
        jfield b ''price'' = Some (JNum pr) \<and> 0 \<le> pr)"
  (is "?lhs \<longleftrightarrow> ?rhs")
proof
  assume ?lhs
  then show ?rhs
    by (auto simp: CartItemSchema_def string_min1_Some_iff number_int_min_Some_iff
        number_min_Some_iff split: if_splits option.splits)
next
  assume ?rhs
  then obtain q pr where r: "quantity v = Finite q" "price v = Finite pr"
    "jfield b ''productId'' = Some (JStr (productId v))" "productId v \<noteq> []"
    "jfield b ''quantity'' = Some (JNum q)" "q \<in> \<int>" "1 \<le> q" "q \<le> MAX_SAFE_INTEGER"
    "jfield b ''price'' = Some (JNum pr)" "0 \<le> pr"
    by blast
  from r(3) have "is_object b" by (rule jfield_Some_object)
  moreover from r have "string_min1 (jfield b ''productId'') = Some (productId v)"
    by (simp add: length_min1)
  moreover from r have "number_int_min 1 (jfield b ''quantity'') = Some q"
    by (simp add: isInteger_iff MAX_SAFE_INTEGER_def)
  moreover from r have "number_min 0 (jfield b ''price'') = Some pr"
    by (simp add: number_min_Some_iff)
  ultimately show ?lhs using r(1,2) by (simp add: CartItemSchema_def)
qed

lemma UpdateCartItemSchema_Some_iff:
  "UpdateCartItemSchema b = Some (p, q) \<longleftrightarrow>
     jfield b ''productId'' = Some (JStr p) \<and> p \<noteq> [] \<and>
     jfield b ''quantity'' = Some (JNum q) \<and> q \<in> \<int> \<and> 0 \<le> q \<and> q \<le> MAX_SAFE_INTEGER"
  (is "?lhs \<longleftrightarrow> ?rhs")
proof
  assume ?lhs
  then show ?rhs
    by (auto simp: UpdateCartItemSchema_def string_min1_Some_iff number_int_min_Some_iff
        split: if_splits option.splits)
next
  assume r: ?rhs
  then have "is_object b" by (blast intro: jfield_Some_object)
  moreover from r have "string_min1 (jfield b ''productId'') = Some p"
    by (simp add: length_min1)
  moreover from r have "number_int_min 0 (jfield b ''quantity'') = Some q"
    by (simp add: isInteger_iff MAX_SAFE_INTEGER_def)
  ultimately show ?lhs by (simp add: UpdateCartItemSchema_def)
qed

lemma DeleteCartItemSchema_Some_iff:
  "DeleteCartItemSchema x = Some i \<longleftrightarrow> x = Some i \<and> i \<noteq> []"
  by (auto simp: DeleteCartItemSchema_def length_min1 split: option.splits if_splits)

lemma POST_invalid: "body r = Some b \<Longrightarrow> CartItemSchema b = None \<Longrightarrow> POST r s = (InvalidInput, s)"
  by (simp add: POST_def)

lemma PUT_invalid: "body r = Some b \<Longrightarrow> UpdateCartItemSchema b = None \<Longrightarrow> PUT r s = (InvalidInput, s)"
  by (simp add: PUT_def)

lemma POST_frame: "u' \<noteq> userId_of r \<Longrightarrow> snd (POST r s) u' = s u'"
  unfolding POST_def carts_get_def Let_def
  by (simp split: option.splits slot.splits if_splits)

lemma PUT_frame: "u' \<noteq> userId_of r \<Longrightarrow> snd (PUT r s) u' = s u'"
  unfolding PUT_def carts_get_def Let_def
  by (simp split: option.splits slot.splits if_splits prod.splits)

lemma DELETE_frame: "u' \<noteq> userId_of r \<Longrightarrow> snd (DELETE r s) u' = s u'"
  unfolding DELETE_def carts_get_def Let_def
  by (simp split: option.splits slot.splits if_splits)

lemma PUT_dom: "dom (snd (PUT r s)) = dom s"
  unfolding PUT_def carts_get_def Let_def
  by (auto split: option.splits slot.splits if_splits prod.splits)

lemma DELETE_dom: "dom (snd (DELETE r s)) = dom s"
  unfolding DELETE_def carts_get_def Let_def
  by (auto split: option.splits slot.splits if_splits)

lemma join_Cons: "join sep (x # xs) = x @ concat (map (\<lambda>y. sep @ y) xs)"
  by (induction xs arbitrary: x) simp_all
















lemma findIndex_Some_mem: "findIndex P xs = Some i \<Longrightarrow> \<exists>x\<in>set xs. P x"
  using findIndex_None_iff [of P xs] by auto

lemma default_user_not_inherited: "''default-user'' \<notin> set object_prototype_keys"
  by (simp add: object_prototype_keys_def)


lemma item_eta: "\<lparr>productId = productId v, quantity = quantity v, price = price v\<rparr> = v"
  by (cases v) simp

lemma POST_cases:
  assumes "body r = Some b" and "CartItemSchema b = Some v"
    and "userId_of r \<notin> set object_prototype_keys"
  shows "POST r s =
     (ItemAdded v,
      s(userId_of r \<mapsto>
          (let c = (case s (userId_of r) of None \<Rightarrow> [] | Some c \<Rightarrow> c)
           in case findIndex (\<lambda>it. productId it = productId v) c of
                Some i \<Rightarrow> c[i := (c ! i)\<lparr>quantity := fadd (quantity (c ! i)) (quantity v)\<rparr>]
              | None \<Rightarrow> c @ [v])))"
  using assms by (simp add: POST_def carts_get_def Let_def item_eta split: option.splits)

lemma GET_cases:
  assumes "userId_of r \<notin> set object_prototype_keys \<or> s (userId_of r) \<noteq> None"
  shows "GET r s =
     (let c = (case s (userId_of r) of None \<Rightarrow> [] | Some c \<Rightarrow> c)
      in (CartView c (length c)
            (foldl (\<lambda>sum it. fadd sum (fmul (price it) (quantity it))) (Finite 0) c), s))"
  using assms by (auto simp: GET_def carts_get_def Let_def split: option.splits)

lemma PUT_cases:
  assumes "body r = Some b" and "UpdateCartItemSchema b = Some (p, q)"
    and "userId_of r \<notin> set object_prototype_keys"
  shows "PUT r s =
     (case s (userId_of r) of
        None \<Rightarrow> (NotFound ''Cart not found'', s)
      | Some c \<Rightarrow>
          (case findIndex (\<lambda>it. productId it = p) c of
             None \<Rightarrow> (NotFound ''Item not found in cart'', s)
           | Some i \<Rightarrow>
               (ItemUpdated p q,
                s(userId_of r \<mapsto>
                    (if q = 0 then splice1 i c else c[i := (c ! i)\<lparr>quantity := Finite q\<rparr>])))))"
  using assms by (simp add: PUT_def carts_get_def split: option.splits)

lemma DELETE_cases:
  assumes "DeleteCartItemSchema (q_itemId r) = Some i"
    and "userId_of r \<notin> set object_prototype_keys"
  shows "DELETE r s =
     (case s (userId_of r) of
        None \<Rightarrow> (NotFound ''Cart not found'', s)
      | Some c \<Rightarrow>
          (case findIndex (\<lambda>it. productId it = i) c of
             None \<Rightarrow> (NotFound ''Item not found in cart'', s)
           | Some k \<Rightarrow> (ItemRemoved i, s(userId_of r \<mapsto> splice1 k c))))"
  using assms by (simp add: DELETE_def carts_get_def split: option.splits)

text \<open>The definitions a concrete request is evaluated with.\<close>

lemmas cart_eval =
  POST_def PUT_def DELETE_def GET_def CartItemSchema_def UpdateCartItemSchema_def
  DeleteCartItemSchema_def isInteger_def carts_get_def object_prototype_keys_def
  userId_of_def add_request_def update_request_def remove_request_def list_request_def
  splice1_def MAX_SAFE_INTEGER_def Let_def

section \<open>The cart invariant\<close>

text \<open>
  C2. Starting from the empty store, every store reached by any sequence of requests holds
  only carts in which no two line items share a \<^verbatim>\<open>productId\<close>; and each of the three
  mutating handlers (\<open>add\<close> is \<^const>\<open>POST\<close>, \<open>update\<close> is \<^const>\<open>PUT\<close>, \<open>remove\<close> is
  \<^const>\<open>DELETE\<close>), on any request at all, takes a store with this property to a store with
  this property.
\<close>

theorem at_most_one_line_item_per_product:
  "(reachable s \<longrightarrow> (\<forall>u c. s u = Some c \<longrightarrow> distinct (map productId c))) \<and>
   (carts_inv s \<longrightarrow>
      carts_inv (snd (POST r1 s)) \<and> carts_inv (snd (PUT r2 s)) \<and> carts_inv (snd (DELETE r3 s)))"
proof (intro conjI impI)
  assume "reachable s"
  then have "carts_inv s" by (rule reachable_carts_inv)
  then show "\<forall>u c. s u = Some c \<longrightarrow> distinct (map productId c)"
    by (simp add: carts_inv_def cart_ok_def)
next
  assume "carts_inv s"
  then show "carts_inv (snd (POST r1 s))" by (rule carts_inv_POST)
next
  assume "carts_inv s"
  then show "carts_inv (snd (PUT r2 s))" by (rule carts_inv_PUT)
next
  assume "carts_inv s"
  then show "carts_inv (snd (DELETE r3 s))" by (rule carts_inv_DELETE)
qed

theorem at_most_one_line_item_per_product_witness:
  "reachable (snd (POST (add_request (Some ''alice'') ''b1'' 2 10) Map.empty)) \<and>
   snd (POST (add_request (Some ''alice'') ''b1'' 2 10) Map.empty) ''alice''
     = Some [\<lparr>productId = ''b1'', quantity = Finite 2, price = Finite 10\<rparr>] \<and>
   distinct (map productId [\<lparr>productId = ''b1'', quantity = Finite 2, price = Finite 10\<rparr>]) \<and>
   carts_inv [''alice'' \<mapsto> [\<lparr>productId = ''b1'', quantity = Finite 2, price = Finite 10\<rparr>]] \<and>
   carts_inv (snd (POST (add_request (Some ''alice'') ''b1'' 3 12)
                [''alice'' \<mapsto> [\<lparr>productId = ''b1'', quantity = Finite 2, price = Finite 10\<rparr>]])) \<and>
   carts_inv (snd (PUT (update_request (Some ''alice'') ''b1'' 0)
                [''alice'' \<mapsto> [\<lparr>productId = ''b1'', quantity = Finite 2, price = Finite 10\<rparr>]])) \<and>
   carts_inv (snd (DELETE (remove_request (Some ''alice'') ''b1'')
                [''alice'' \<mapsto> [\<lparr>productId = ''b1'', quantity = Finite 2, price = Finite 10\<rparr>]]))"
proof -
  let ?r = "add_request (Some ''alice'') ''b1'' 2 10"
  let ?c = "[\<lparr>productId = ''b1'', quantity = Finite 2, price = Finite 10\<rparr>]"
  have reach: "reachable (snd (POST ?r Map.empty))"
    by (rule reachable.post [OF reachable.start])
  have cart: "snd (POST ?r Map.empty) ''alice'' = Some ?c"
    by (simp add: cart_eval)
  have inv: "carts_inv [''alice'' \<mapsto> ?c]"
    by (simp add: carts_inv_def cart_ok_def)
  from reach cart inv
    at_most_one_line_item_per_product [of "snd (POST ?r Map.empty)"]
    at_most_one_line_item_per_product [of "[''alice'' \<mapsto> ?c]"
      "add_request (Some ''alice'') ''b1'' 3 12" "update_request (Some ''alice'') ''b1'' 0"
      "remove_request (Some ''alice'') ''b1''"]
  show ?thesis by blast
qed

section \<open>Validation\<close>

text \<open>
  C7. \<open>add\<close> answers 400 (\<^const>\<open>InvalidInput\<close>) whenever, in the JSON body, \<^verbatim>\<open>productId\<close> is
  not a non-empty string, or \<^verbatim>\<open>quantity\<close> is not an integer of at least 1, or \<^verbatim>\<open>price\<close> is
  not a number of at least 0; \<open>update\<close> answers 400 whenever \<^verbatim>\<open>quantity\<close> is not an integer of
  at least 0 (so for \<open>-1\<close>). The answer is given for every store and returns the store as
  it was: validation comes before any access to \<^verbatim>\<open>carts\<close>. A body that is no JSON object
  has no members, hence fails; a body that is no JSON at all (\<open>body r = None\<close>) is not a
  validation failure but status 500. (The schemas reject more than this: an integer
  quantity above \<^verbatim>\<open>Number.MAX_SAFE_INTEGER\<close> is answered with 400 as well.)
\<close>

theorem validation_errors_leave_store:
  "(body r = Some b \<and>
      ((\<nexists>p. jfield b ''productId'' = Some (JStr p) \<and> p \<noteq> []) \<or>
       (\<nexists>q. jfield b ''quantity'' = Some (JNum q) \<and> q \<in> \<int> \<and> 1 \<le> q) \<or>
       (\<nexists>x. jfield b ''price'' = Some (JNum x) \<and> 0 \<le> x))
     \<longrightarrow> POST r s = (InvalidInput, s)) \<and>
   (body r' = Some b' \<and> (\<nexists>q. jfield b' ''quantity'' = Some (JNum q) \<and> q \<in> \<int> \<and> 0 \<le> q)
     \<longrightarrow> PUT r' s = (InvalidInput, s))"
proof (intro conjI impI)
  assume a: "body r = Some b \<and>
      ((\<nexists>p. jfield b ''productId'' = Some (JStr p) \<and> p \<noteq> []) \<or>
       (\<nexists>q. jfield b ''quantity'' = Some (JNum q) \<and> q \<in> \<int> \<and> 1 \<le> q) \<or>
       (\<nexists>x. jfield b ''price'' = Some (JNum x) \<and> 0 \<le> x))"
  have "CartItemSchema b = None"
  proof (rule ccontr)
    assume "CartItemSchema b \<noteq> None"
    then obtain v where "CartItemSchema b = Some v" by auto
    with a show False unfolding CartItemSchema_Some_iff by blast
  qed
  with a show "POST r s = (InvalidInput, s)" by (simp add: POST_invalid)
next
  assume a: "body r' = Some b' \<and>
    (\<nexists>q. jfield b' ''quantity'' = Some (JNum q) \<and> q \<in> \<int> \<and> 0 \<le> q)"
  have "UpdateCartItemSchema b' = None"
  proof (rule ccontr)
    assume "UpdateCartItemSchema b' \<noteq> None"
    then obtain p q where "UpdateCartItemSchema b' = Some (p, q)" by auto
    with a show False unfolding UpdateCartItemSchema_Some_iff by blast
  qed
  with a show "PUT r' s = (InvalidInput, s)" by (simp add: PUT_invalid)
qed

theorem validation_errors_leave_store_witness:
  "POST (add_request (Some ''alice'') ''b1'' 0 10)
     [''alice'' \<mapsto> [\<lparr>productId = ''b1'', quantity = Finite 2, price = Finite 10\<rparr>]]
     = (InvalidInput, [''alice'' \<mapsto> [\<lparr>productId = ''b1'', quantity = Finite 2, price = Finite 10\<rparr>]]) \<and>
   PUT (update_request (Some ''alice'') ''b1'' (- 1))
     [''alice'' \<mapsto> [\<lparr>productId = ''b1'', quantity = Finite 2, price = Finite 10\<rparr>]]
     = (InvalidInput, [''alice'' \<mapsto> [\<lparr>productId = ''b1'', quantity = Finite 2, price = Finite 10\<rparr>]])"
proof -
  let ?b = "JObj [(''productId'', JStr ''b1''), (''quantity'', JNum 0), (''price'', JNum 10)]"
  let ?b' = "JObj [(''productId'', JStr ''b1''), (''quantity'', JNum (- 1))]"
  have 1: "body (add_request (Some ''alice'') ''b1'' 0 10) = Some ?b"
    by (simp add: add_request_def)
  have 2: "\<nexists>q. jfield ?b ''quantity'' = Some (JNum q) \<and> q \<in> \<int> \<and> 1 \<le> q"
    by simp
  have 3: "body (update_request (Some ''alice'') ''b1'' (- 1)) = Some ?b'"
    by (simp add: update_request_def)
  have 4: "\<nexists>q. jfield ?b' ''quantity'' = Some (JNum q) \<and> q \<in> \<int> \<and> 0 \<le> q"
    by simp
  from 1 2 3 4
    validation_errors_leave_store [of "add_request (Some ''alice'') ''b1'' 0 10" ?b
      "[''alice'' \<mapsto> [\<lparr>productId = ''b1'', quantity = Finite 2, price = Finite 10\<rparr>]]"
      "update_request (Some ''alice'') ''b1'' (- 1)" ?b']
  show ?thesis by blast
qed

section \<open>The default user\<close>

text \<open>
  C8. Let a request carry no query parameter \<^verbatim>\<open>userId\<close>. Then its user is \<^verbatim>\<open>default-user\<close>, and
  each of the four handlers gives the same response and the same store as for the request
  with \<^verbatim>\<open>userId=default-user\<close>. All such requests work on the one cart stored under
  \<^verbatim>\<open>default-user\<close>: \<open>list\<close> answers with exactly the line items of that cart (none if there is
  no such cart), their number and their total; a valid \<open>add\<close> succeeds and replaces that
  cart by itself with the product's quantity increased or the new line item appended; a
  valid \<open>update\<close> or \<open>remove\<close> answers 404 if that cart or the line item is missing and
  otherwise replaces that cart by itself with the line item changed or removed. No other
  entry of the store is written. So what one caller without \<^verbatim>\<open>userId\<close> adds, every other
  caller without \<^verbatim>\<open>userId\<close> is shown and can change.
\<close>

theorem missing_userId_is_default_user:
  assumes "q_userId r = None"
  shows "userId_of r = ''default-user'' \<and>
    GET r s = GET (r\<lparr>q_userId := Some ''default-user''\<rparr>) s \<and>
    POST r s = POST (r\<lparr>q_userId := Some ''default-user''\<rparr>) s \<and>
    PUT r s = PUT (r\<lparr>q_userId := Some ''default-user''\<rparr>) s \<and>
    DELETE r s = DELETE (r\<lparr>q_userId := Some ''default-user''\<rparr>) s \<and>
    GET r s =
      (CartView (case s ''default-user'' of None \<Rightarrow> [] | Some c \<Rightarrow> c)
         (length (case s ''default-user'' of None \<Rightarrow> [] | Some c \<Rightarrow> c))
         (foldl (\<lambda>sum it. fadd sum (fmul (price it) (quantity it))) (Finite 0)
            (case s ''default-user'' of None \<Rightarrow> [] | Some c \<Rightarrow> c)), s) \<and>
    (\<forall>b v. body r = Some b \<and> CartItemSchema b = Some v \<longrightarrow>
       POST r s =
         (ItemAdded v,
          s(''default-user'' \<mapsto>
              (case findIndex (\<lambda>it. productId it = productId v)
                      (case s ''default-user'' of None \<Rightarrow> [] | Some c \<Rightarrow> c) of
                 Some i \<Rightarrow>
                   (case s ''default-user'' of None \<Rightarrow> [] | Some c \<Rightarrow> c)
                     [i := ((case s ''default-user'' of None \<Rightarrow> [] | Some c \<Rightarrow> c) ! i)
                        \<lparr>quantity :=
                           fadd (quantity ((case s ''default-user'' of None \<Rightarrow> []
                                            | Some c \<Rightarrow> c) ! i)) (quantity v)\<rparr>]
               | None \<Rightarrow> (case s ''default-user'' of None \<Rightarrow> [] | Some c \<Rightarrow> c) @ [v])))) \<and>
    (\<forall>b p q. body r = Some b \<and> UpdateCartItemSchema b = Some (p, q) \<longrightarrow>
       PUT r s =
         (case s ''default-user'' of
            None \<Rightarrow> (NotFound ''Cart not found'', s)
          | Some c \<Rightarrow>
              (case findIndex (\<lambda>it. productId it = p) c of
                 None \<Rightarrow> (NotFound ''Item not found in cart'', s)
               | Some i \<Rightarrow>
                   (ItemUpdated p q,
                    s(''default-user'' \<mapsto>
                        (if q = 0 then splice1 i c
                         else c[i := (c ! i)\<lparr>quantity := Finite q\<rparr>])))))) \<and>
    (\<forall>i. DeleteCartItemSchema (q_itemId r) = Some i \<longrightarrow>
       DELETE r s =
         (case s ''default-user'' of
            None \<Rightarrow> (NotFound ''Cart not found'', s)
          | Some c \<Rightarrow>
              (case findIndex (\<lambda>it. productId it = i) c of
                 None \<Rightarrow> (NotFound ''Item not found in cart'', s)
               | Some k \<Rightarrow> (ItemRemoved i, s(''default-user'' \<mapsto> splice1 k c)))))"
proof -
  let ?r = "r\<lparr>q_userId := Some ''default-user''\<rparr>"
  have u: "userId_of r = ''default-user''"
    using assms by (simp add: userId_of_def)
  have u': "userId_of ?r = userId_of r"
    using u by (simp add: userId_of_def)
  have ni: "userId_of r \<notin> set object_prototype_keys"
    using u default_user_not_inherited by simp
  have g: "GET r s = GET ?r s" unfolding GET_def u' by simp
  have p: "POST r s = POST ?r s" unfolding POST_def u' by simp
  have t: "PUT r s = PUT ?r s" unfolding PUT_def u' by simp
  have d: "DELETE r s = DELETE ?r s" unfolding DELETE_def u' by simp
  have rd: "GET r s =
      (CartView (case s ''default-user'' of None \<Rightarrow> [] | Some c \<Rightarrow> c)
         (length (case s ''default-user'' of None \<Rightarrow> [] | Some c \<Rightarrow> c))
         (foldl (\<lambda>sum it. fadd sum (fmul (price it) (quantity it))) (Finite 0)
            (case s ''default-user'' of None \<Rightarrow> [] | Some c \<Rightarrow> c)), s)"
    using GET_cases [of r s, unfolded u Let_def] default_user_not_inherited by blast
  have wr: "POST r s =
         (ItemAdded v,
          s(''default-user'' \<mapsto>
              (case findIndex (\<lambda>it. productId it = productId v)
                      (case s ''default-user'' of None \<Rightarrow> [] | Some c \<Rightarrow> c) of
                 Some i \<Rightarrow>
                   (case s ''default-user'' of None \<Rightarrow> [] | Some c \<Rightarrow> c)
                     [i := ((case s ''default-user'' of None \<Rightarrow> [] | Some c \<Rightarrow> c) ! i)
                        \<lparr>quantity :=
                           fadd (quantity ((case s ''default-user'' of None \<Rightarrow> []
                                            | Some c \<Rightarrow> c) ! i)) (quantity v)\<rparr>]
               | None \<Rightarrow> (case s ''default-user'' of None \<Rightarrow> [] | Some c \<Rightarrow> c) @ [v])))"
    if "body r = Some b \<and> CartItemSchema b = Some v" for b v
    using POST_cases [of r b v s, unfolded u Let_def] that default_user_not_inherited by blast
  have up: "PUT r s =
         (case s ''default-user'' of
            None \<Rightarrow> (NotFound ''Cart not found'', s)
          | Some c \<Rightarrow>
              (case findIndex (\<lambda>it. productId it = p) c of
                 None \<Rightarrow> (NotFound ''Item not found in cart'', s)
               | Some i \<Rightarrow>
                   (ItemUpdated p q,
                    s(''default-user'' \<mapsto>
                        (if q = 0 then splice1 i c
                         else c[i := (c ! i)\<lparr>quantity := Finite q\<rparr>])))))"
    if "body r = Some b \<and> UpdateCartItemSchema b = Some (p, q)" for b p q
    using PUT_cases [of r b p q s, unfolded u] that default_user_not_inherited by blast
  have rm: "DELETE r s =
         (case s ''default-user'' of
            None \<Rightarrow> (NotFound ''Cart not found'', s)
          | Some c \<Rightarrow>
              (case findIndex (\<lambda>it. productId it = i) c of
                 None \<Rightarrow> (NotFound ''Item not found in cart'', s)
               | Some k \<Rightarrow> (ItemRemoved i, s(''default-user'' \<mapsto> splice1 k c))))"
    if "DeleteCartItemSchema (q_itemId r) = Some i" for i
    using DELETE_cases [of r i s, unfolded u] that default_user_not_inherited by blast
  from u g p t d rd wr up rm show ?thesis by blast
qed

theorem missing_userId_is_default_user_witness:
  "q_userId (add_request None ''b1'' 2 10) = None \<and>
   POST (add_request None ''b1'' 2 10) Map.empty
     = (ItemAdded \<lparr>productId = ''b1'', quantity = Finite 2, price = Finite 10\<rparr>,
        [''default-user'' \<mapsto> [\<lparr>productId = ''b1'', quantity = Finite 2, price = Finite 10\<rparr>]]) \<and>
   q_userId (list_request None) = None \<and>
   GET (list_request None)
       [''default-user'' \<mapsto> [\<lparr>productId = ''b1'', quantity = Finite 2, price = Finite 10\<rparr>]]
     = (CartView [\<lparr>productId = ''b1'', quantity = Finite 2, price = Finite 10\<rparr>] 1 (Finite 20),
        [''default-user'' \<mapsto> [\<lparr>productId = ''b1'', quantity = Finite 2, price = Finite 10\<rparr>]]) \<and>
   q_userId (update_request None ''b1'' 5) = None \<and>
   PUT (update_request None ''b1'' 5)
       [''default-user'' \<mapsto> [\<lparr>productId = ''b1'', quantity = Finite 2, price = Finite 10\<rparr>]]
     = (ItemUpdated ''b1'' 5,
        [''default-user'' \<mapsto> [\<lparr>productId = ''b1'', quantity = Finite 5, price = Finite 10\<rparr>]]) \<and>
   q_userId (remove_request None ''b1'') = None \<and>
   DELETE (remove_request None ''b1'')
       [''default-user'' \<mapsto> [\<lparr>productId = ''b1'', quantity = Finite 2, price = Finite 10\<rparr>]]
     = (ItemRemoved ''b1'', [''default-user'' \<mapsto> []])"
proof -
  let ?v = "\<lparr>productId = ''b1'', quantity = Finite 2, price = Finite 10\<rparr>"
  let ?s = "[''default-user'' \<mapsto> [?v]]"
  let ?add = "add_request None ''b1'' 2 10"
  let ?upd = "update_request None ''b1'' 5"
  let ?del = "remove_request None ''b1''"
  let ?b = "JObj [(''productId'', JStr ''b1''), (''quantity'', JNum 2), (''price'', JNum 10)]"
  let ?b' = "JObj [(''productId'', JStr ''b1''), (''quantity'', JNum 5)]"
  have n: "q_userId ?add = None" "q_userId (list_request None) = None"
    "q_userId ?upd = None" "q_userId ?del = None"
    by (simp_all add: add_request_def list_request_def update_request_def remove_request_def)
  have va: "body ?add = Some ?b \<and> CartItemSchema ?b = Some ?v"
    by (simp add: cart_eval)
  have vu: "body ?upd = Some ?b' \<and> UpdateCartItemSchema ?b' = Some (''b1'', 5)"
    by (simp add: cart_eval)
  have vd: "DeleteCartItemSchema (q_itemId ?del) = Some ''b1''"
    by (simp add: cart_eval)
  note w = missing_userId_is_default_user [OF n(1), of Map.empty]
  note l = missing_userId_is_default_user [OF n(2), of ?s]
  note u = missing_userId_is_default_user [OF n(3), of ?s]
  note d = missing_userId_is_default_user [OF n(4), of ?s]
  note wP = w [THEN conjunct2, THEN conjunct2, THEN conjunct2, THEN conjunct2, THEN conjunct2,
      THEN conjunct2, THEN conjunct1, rule_format, OF va]
  note lG = l [THEN conjunct2, THEN conjunct2, THEN conjunct2, THEN conjunct2, THEN conjunct2,
      THEN conjunct1]
  note uP = u [THEN conjunct2, THEN conjunct2, THEN conjunct2, THEN conjunct2, THEN conjunct2,
      THEN conjunct2, THEN conjunct2, THEN conjunct1, rule_format, OF vu]
  note dD = d [THEN conjunct2, THEN conjunct2, THEN conjunct2, THEN conjunct2, THEN conjunct2,
      THEN conjunct2, THEN conjunct2, THEN conjunct2, rule_format, OF vd]
  have 1: "POST ?add Map.empty = (ItemAdded ?v, ?s)"
    unfolding wP by simp
  have 2: "GET (list_request None) ?s = (CartView [?v] 1 (Finite 20), ?s)"
    unfolding lG by (simp add: to_double_safe_integer)
  have 3: "PUT ?upd ?s
      = (ItemUpdated ''b1'' 5,
         [''default-user'' \<mapsto> [\<lparr>productId = ''b1'', quantity = Finite 5, price = Finite 10\<rparr>]])"
    unfolding uP by simp
  have 4: "DELETE ?del ?s = (ItemRemoved ''b1'', [''default-user'' \<mapsto> []])"
    unfolding dD by (simp add: splice1_def)
  from n 1 2 3 4 show ?thesis by blast
qed

section \<open>Frame properties\<close>

text \<open>
  C9. A request handled by \<open>add\<close>, \<open>update\<close> or \<open>remove\<close> leaves the cart of every user
  other than the request's (defaulted) user as it was, whatever the response is.
\<close>

theorem other_carts_unchanged:
  "u' \<noteq> userId_of r \<Longrightarrow>
     snd (POST r s) u' = s u' \<and> snd (PUT r s) u' = s u' \<and> snd (DELETE r s) u' = s u'"
  by (simp add: POST_frame PUT_frame DELETE_frame)

theorem other_carts_unchanged_witness:
  "''bob'' \<noteq> userId_of (add_request (Some ''alice'') ''b1'' 1 10) \<and>
   snd (POST (add_request (Some ''alice'') ''b1'' 1 10)
     [''alice'' \<mapsto> [], ''bob'' \<mapsto> [\<lparr>productId = ''b2'', quantity = Finite 3, price = Finite 4\<rparr>]]) ''bob''
     = Some [\<lparr>productId = ''b2'', quantity = Finite 3, price = Finite 4\<rparr>] \<and>
   ''bob'' \<noteq> userId_of (update_request None ''b2'' 0) \<and>
   snd (PUT (update_request None ''b2'' 0)
     [''default-user'' \<mapsto> [\<lparr>productId = ''b2'', quantity = Finite 1, price = Finite 4\<rparr>],
      ''bob'' \<mapsto> [\<lparr>productId = ''b2'', quantity = Finite 3, price = Finite 4\<rparr>]]) ''bob''
     = Some [\<lparr>productId = ''b2'', quantity = Finite 3, price = Finite 4\<rparr>] \<and>
   ''bob'' \<noteq> userId_of (remove_request (Some ''carol'') ''b2'') \<and>
   snd (DELETE (remove_request (Some ''carol'') ''b2'')
     [''bob'' \<mapsto> [\<lparr>productId = ''b2'', quantity = Finite 3, price = Finite 4\<rparr>]]) ''bob''
     = Some [\<lparr>productId = ''b2'', quantity = Finite 3, price = Finite 4\<rparr>]"
proof -
  have 1: "''bob'' \<noteq> userId_of (add_request (Some ''alice'') ''b1'' 1 10)"
    by (simp add: userId_of_def add_request_def)
  have 2: "''bob'' \<noteq> userId_of (update_request None ''b2'' 0)"
    by (simp add: userId_of_def update_request_def)
  have 3: "''bob'' \<noteq> userId_of (remove_request (Some ''carol'') ''b2'')"
    by (simp add: userId_of_def remove_request_def)
  show ?thesis
    using 1 2 3
      other_carts_unchanged [OF 1,
        of "[''alice'' \<mapsto> [], ''bob'' \<mapsto> [\<lparr>productId = ''b2'', quantity = Finite 3, price = Finite 4\<rparr>]]"]
      other_carts_unchanged [OF 2,
        of "[''default-user'' \<mapsto> [\<lparr>productId = ''b2'', quantity = Finite 1, price = Finite 4\<rparr>],
            ''bob'' \<mapsto> [\<lparr>productId = ''b2'', quantity = Finite 3, price = Finite 4\<rparr>]]"]
      other_carts_unchanged [OF 3,
        of "[''bob'' \<mapsto> [\<lparr>productId = ''b2'', quantity = Finite 3, price = Finite 4\<rparr>]]"]
    by simp
qed

text \<open>
  C10. \<open>list\<close> returns the store as it received it, for every request and every store; so
  listing for a user without a cart adds no entry for that user. Of the other handlers,
  \<open>update\<close> and \<open>remove\<close> keep the set of users that have a cart: a cart is created by
  \<open>add\<close> only.
\<close>

theorem list_leaves_store:
  "snd (GET r s) = s \<and> dom (snd (PUT r s)) = dom s \<and> dom (snd (DELETE r s)) = dom s"
  by (simp add: snd_GET PUT_dom DELETE_dom)

section \<open>Book catalogue: the genre of a listed book\<close>

text \<open>
  C3. \<^const>\<open>getAllBooks\<close> returns one book per book of the data set, in the same order. A
  book whose \<^verbatim>\<open>genre\<close> is a string is returned as it is. A book whose \<^verbatim>\<open>genre\<close> is an array
  is returned with all other members unchanged and with \<^verbatim>\<open>genre\<close> the single string made
  of the array's elements in their order, each element after the first preceded by the
  separator, a comma followed by a space (the empty string for the empty array).
\<close>

theorem getAllBooks_genre:
  "length (getAllBooks books) = length books \<and>
   (\<forall>i<length books.
      (\<forall>g. genre (books ! i) = GenreString g \<longrightarrow> getAllBooks books ! i = books ! i) \<and>
      (genre (books ! i) = GenreArray [] \<longrightarrow>
         getAllBooks books ! i = (books ! i)\<lparr>genre := GenreString []\<rparr>) \<and>
      (\<forall>g gs. genre (books ! i) = GenreArray (g # gs) \<longrightarrow>
         getAllBooks books ! i
           = (books ! i)\<lparr>genre := GenreString (g @ concat (map (\<lambda>y. '', '' @ y) gs))\<rparr>))"
  by (simp add: getAllBooks_def join_Cons)

theorem getAllBooks_genre_witness:
  "length (getAllBooks
     [\<lparr>rest = ''Dune'', genre = GenreArray [''Science Fiction'', ''Adventure'', ''Classic'']\<rparr>,
      \<lparr>rest = ''Emma'', genre = GenreString ''Romance''\<rparr>,
      \<lparr>rest = ''Untitled'', genre = GenreArray []\<rparr>]) = 3 \<and>
   getAllBooks
     [\<lparr>rest = ''Dune'', genre = GenreArray [''Science Fiction'', ''Adventure'', ''Classic'']\<rparr>,
      \<lparr>rest = ''Emma'', genre = GenreString ''Romance''\<rparr>,
      \<lparr>rest = ''Untitled'', genre = GenreArray []\<rparr>] ! 0
     = \<lparr>rest = ''Dune'', genre = GenreString ''Science Fiction, Adventure, Classic''\<rparr> \<and>
   getAllBooks
     [\<lparr>rest = ''Dune'', genre = GenreArray [''Science Fiction'', ''Adventure'', ''Classic'']\<rparr>,
      \<lparr>rest = ''Emma'', genre = GenreString ''Romance''\<rparr>,
      \<lparr>rest = ''Untitled'', genre = GenreArray []\<rparr>] ! 1
     = \<lparr>rest = ''Emma'', genre = GenreString ''Romance''\<rparr> \<and>
   getAllBooks
     [\<lparr>rest = ''Dune'', genre = GenreArray [''Science Fiction'', ''Adventure'', ''Classic'']\<rparr>,
      \<lparr>rest = ''Emma'', genre = GenreString ''Romance''\<rparr>,
      \<lparr>rest = ''Untitled'', genre = GenreArray []\<rparr>] ! 2
     = \<lparr>rest = ''Untitled'', genre = GenreString ''''\<rparr>"
proof -
  let ?books = "[\<lparr>rest = ''Dune'', genre = GenreArray [''Science Fiction'', ''Adventure'', ''Classic'']\<rparr>,
      \<lparr>rest = ''Emma'', genre = GenreString ''Romance''\<rparr>,
      \<lparr>rest = ''Untitled'', genre = GenreArray []\<rparr>]"
  have len: "length (getAllBooks ?books) = 3"
    using getAllBooks_genre [of ?books] by simp
  have 0: "getAllBooks ?books ! 0
      = \<lparr>rest = ''Dune'', genre = GenreString ''Science Fiction, Adventure, Classic''\<rparr>"
    using getAllBooks_genre [of ?books, THEN conjunct2, rule_format, of 0] by simp
  have 1: "getAllBooks ?books ! 1 = \<lparr>rest = ''Emma'', genre = GenreString ''Romance''\<rparr>"
    using getAllBooks_genre [of ?books, THEN conjunct2, rule_format, of 1] by simp
  have 2: "getAllBooks ?books ! 2 = \<lparr>rest = ''Untitled'', genre = GenreString ''''\<rparr>"
    using getAllBooks_genre [of ?books, THEN conjunct2, rule_format, of 2] by simp
  from len 0 1 2 show ?thesis by blast
qed

section \<open>Adding a product\<close>




section \<open>Updating a line item\<close>



section \<open>Listing a cart\<close>

text \<open>
  For a user identifier that is not the name of a property of \<^verbatim>\<open>Object.prototype\<close> (or that
  has a cart of its own) \<open>list\<close> succeeds (\<open>GET_cases\<close>): it returns the user's line items,
  the empty sequence when the user has no cart, their number as \<^verbatim>\<open>totalItems\<close>, and as
  \<^verbatim>\<open>totalPrice\<close> the sum of \<open>price * quantity\<close> over them, accumulated from the left in
  double arithmetic; the cart of the example has 2 items and total price 25.
\<close>

lemma list_totals_example:
  "GET (list_request (Some ''alice''))
     [''alice'' \<mapsto> [\<lparr>productId = ''a'', quantity = Finite 2, price = Finite 10\<rparr>,
                   \<lparr>productId = ''b'', quantity = Finite 1, price = Finite 5\<rparr>]]
   = (CartView [\<lparr>productId = ''a'', quantity = Finite 2, price = Finite 10\<rparr>,
                \<lparr>productId = ''b'', quantity = Finite 1, price = Finite 5\<rparr>] 2 (Finite 25),
      [''alice'' \<mapsto> [\<lparr>productId = ''a'', quantity = Finite 2, price = Finite 10\<rparr>,
                   \<lparr>productId = ''b'', quantity = Finite 1, price = Finite 5\<rparr>]])"
  by (simp add: cart_eval to_double_safe_integer)

text \<open>
  C6. The specification has \<open>list\<close> never fail and return the empty sequence for a user
  without a cart. The handler does not do so for every user: for the user identifier
  \<^verbatim>\<open>constructor\<close>, which has no cart in the store, the read \<^verbatim>\<open>carts[userId]\<close> yields the
  function inherited from \<^verbatim>\<open>Object.prototype\<close>, the fallback \<^verbatim>\<open>|| []\<close> is not taken,
  \<^verbatim>\<open>cartItems.reduce\<close> is not a function, and the handler answers with status 500.
\<close>

theorem list_fails_for_inherited_key:
  "Map.empty ''constructor'' = (None :: cart option) \<and>
   GET (list_request (Some ''constructor'')) Map.empty
     = (ServerError ''Failed to fetch cart items'', Map.empty)"
  by (simp add: cart_eval)

section \<open>Not found\<close>

text \<open>
  For a valid request whose user identifier is not the name of a property of
  \<^verbatim>\<open>Object.prototype\<close>, \<open>update\<close> and \<open>remove\<close> answer 404 exactly when the user has no cart or
  the cart has no line item whose \<^verbatim>\<open>productId\<close> is the given identifier, and then the store
  is unchanged.
\<close>

lemma update_not_found_iff:
  assumes "body r = Some b" and "UpdateCartItemSchema b = Some (p, q)"
    and "userId_of r \<notin> set object_prototype_keys"
  shows "((\<exists>m. fst (PUT r s) = NotFound m) \<longleftrightarrow>
           (s (userId_of r) = None \<or>
            (\<exists>c. s (userId_of r) = Some c \<and> (\<forall>x\<in>set c. productId x \<noteq> p)))) \<and>
         ((\<exists>m. fst (PUT r s) = NotFound m) \<longrightarrow> snd (PUT r s) = s)"
  unfolding PUT_cases [OF assms]
  by (auto simp: findIndex_None_iff dest: findIndex_Some_mem split: option.splits)

lemma remove_not_found_iff:
  assumes "DeleteCartItemSchema (q_itemId r) = Some i"
    and "userId_of r \<notin> set object_prototype_keys"
  shows "((\<exists>m. fst (DELETE r s) = NotFound m) \<longleftrightarrow>
           (s (userId_of r) = None \<or>
            (\<exists>c. s (userId_of r) = Some c \<and> (\<forall>x\<in>set c. productId x \<noteq> i)))) \<and>
         ((\<exists>m. fst (DELETE r s) = NotFound m) \<longrightarrow> snd (DELETE r s) = s)"
  unfolding DELETE_cases [OF assms]
  by (auto simp: findIndex_None_iff dest: findIndex_Some_mem split: option.splits)

text \<open>
  C5. The specification has \<open>update\<close> and \<open>remove\<close> answer 404 whenever the user has no cart
  in the store. The handlers do not do so for every user: for the user identifier
  \<^verbatim>\<open>constructor\<close>, which has no cart in the store, the test \<^verbatim>\<open>!carts[userId]\<close> sees the
  function inherited from \<^verbatim>\<open>Object.prototype\<close>, the 404 branch is not taken,
  \<^verbatim>\<open>carts[userId].findIndex\<close> is not a function, and both handlers answer with status 500
  (the store is unchanged).
\<close>

theorem update_remove_fail_for_inherited_key:
  "Map.empty ''constructor'' = (None :: cart option) \<and>
   PUT (update_request (Some ''constructor'') ''b1'' 1) Map.empty
     = (ServerError ''Failed to update cart item'', Map.empty) \<and>
   DELETE (remove_request (Some ''constructor'') ''b1'') Map.empty
     = (ServerError ''Failed to remove item from cart'', Map.empty)"
  by (simp add: cart_eval)

end
